theory Spec2Isabelle
  imports Complex_Main "HOL-Library.Sublist"
begin

section \<open>The parity streak gate (scripts/parity_streak_gate.py)\<close>

subsection \<open>Python values decoded from JSON\<close>

text \<open>
  \<^verbatim>\<open>json.loads\<close> returns \<^verbatim>\<open>None\<close>, a \<^verbatim>\<open>bool\<close>, an \<^verbatim>\<open>int\<close>, a
  \<^verbatim>\<open>float\<close>, a \<^verbatim>\<open>str\<close>, a \<^verbatim>\<open>list\<close> or a \<^verbatim>\<open>dict\<close> with string keys.
  A dict is the list of its items in insertion order; its keys are distinct in every
  value the decoder produces, and \<open>map_of\<close> is the lookup. A string is the list of its
  characters.
\<close>

datatype pyfloat = Finite real | PosInf | NegInf | NaN

datatype json =
    JNull
  | JBool bool
  | JInt int
  | JFloat pyfloat
  | JStr string
  | JArr "json list"
  | JObj "(string \<times> json) list"

type_synonym pydict = "(string \<times> json) list"

text \<open>\<^verbatim>\<open>d.get(key)\<close> and \<^verbatim>\<open>d.get(key, default)\<close>.\<close>

definition get_default :: "pydict \<Rightarrow> string \<Rightarrow> json \<Rightarrow> json" where
  "get_default d k dflt = (case map_of d k of None \<Rightarrow> dflt | Some v \<Rightarrow> v)"

definition get :: "pydict \<Rightarrow> string \<Rightarrow> json" where
  "get d k = get_default d k JNull"

text \<open>\<^verbatim>\<open>d.values()\<close>.\<close>

definition dict_values :: "pydict \<Rightarrow> json list" where
  "dict_values d = map snd d"

text \<open>\<^verbatim>\<open>bool(value)\<close>: the truth value of a decoded JSON value.\<close>

fun truthy :: "json \<Rightarrow> bool" where
  "truthy JNull = False"
| "truthy (JBool b) = b"
| "truthy (JInt n) = (n \<noteq> 0)"
| "truthy (JFloat f) = (f \<noteq> Finite 0)"
| "truthy (JStr s) = (s \<noteq> [])"
| "truthy (JArr xs) = (xs \<noteq> [])"
| "truthy (JObj d) = (d \<noteq> [])"

fun type_name :: "json \<Rightarrow> string" where
  "type_name JNull = ''NoneType''"
| "type_name (JBool _) = ''bool''"
| "type_name (JInt _) = ''int''"
| "type_name (JFloat _) = ''float''"
| "type_name (JStr _) = ''str''"
| "type_name (JArr _) = ''list''"
| "type_name (JObj _) = ''dict''"

subsection \<open>Formatted text and exceptions\<close>

text \<open>
  An f-string is kept as the list of its parts: literal text, a formatted integer, and
  \<open>V v\<close> for \<^verbatim>\<open>str(v)\<close> of a decoded value \<open>v\<close>. A message cites a value when the
  value's part occurs in it.
\<close>

datatype frag = S string | I int | V json

type_synonym pytext = "frag list"

text \<open>An exception is its class name and the text of \<^verbatim>\<open>str(exc)\<close>.\<close>

datatype pyexc = PyExc string pytext

fun exc_text :: "pyexc \<Rightarrow> pytext" where
  "exc_text (PyExc _ t) = t"

definition quoted :: "string \<Rightarrow> string" where
  "quoted s = [CHR 0x27] @ s @ [CHR 0x27]"

definition KeyError :: "string \<Rightarrow> pyexc" where
  "KeyError k = PyExc ''KeyError'' [S (quoted k)]"

definition no_attribute :: "json \<Rightarrow> string \<Rightarrow> pyexc" where
  "no_attribute v a =
     PyExc ''AttributeError'' [S (quoted (type_name v)), S '' object has no attribute '', S (quoted a)]"

definition not_iterable :: "json \<Rightarrow> pyexc" where
  "not_iterable v = PyExc ''TypeError'' [S (quoted (type_name v)), S '' object is not iterable'']"

definition no_len :: "json \<Rightarrow> pyexc" where
  "no_len v = PyExc ''TypeError'' [S ''object of type '', S (quoted (type_name v)), S '' has no len()'']"

definition not_subscriptable :: "json \<Rightarrow> pyexc" where
  "not_subscriptable v = PyExc ''TypeError'' [S (quoted (type_name v)), S '' object is not subscriptable'']"

definition RuntimeError :: "pytext \<Rightarrow> pyexc" where
  "RuntimeError t = PyExc ''RuntimeError'' t"

subsection \<open>The interpreter and the libraries the script calls\<close>

record request =
  req_url :: json
  req_headers :: "(string \<times> string) list"
  req_timeout :: nat

record zipfile =
  namelist :: "string list"
  zread :: "string \<Rightarrow> pyexc + string"

text \<open>
  What the script takes from outside its own text is a parameter:
  \<^item> \<open>lib_int\<close>: the builtin \<^verbatim>\<open>int(str)\<close>, raising \<^verbatim>\<open>ValueError\<close>;
  \<^item> \<open>lib_quote\<close>: \<^verbatim>\<open>urllib.parse.quote(s, safe="")\<close>;
  \<^item> \<open>lib_urlopen\<close>: \<^verbatim>\<open>urllib.request.Request\<close>, \<^verbatim>\<open>urlopen\<close> and
    \<^verbatim>\<open>resp.read()\<close> together: the body, or the exception raised on the way. The remote
    side is a snapshot: the same request gets the same answer;
  \<^item> \<open>lib_decode\<close>: \<^verbatim>\<open>bytes.decode("utf-8")\<close>;
  \<^item> \<open>lib_json_loads\<close>: \<^verbatim>\<open>json.loads\<close>;
  \<^item> \<open>lib_ZipFile\<close>: \<^verbatim>\<open>zipfile.ZipFile(io.BytesIO(archive))\<close>;
  \<^item> \<open>slices_hashable\<close>: whether a slice object is hashable (it is from Python 3.12 on),
    which decides the exception of a dict indexed by a slice.
  Every exception raised by them is an \<^verbatim>\<open>Exception\<close>.
\<close>

record pylib =
  lib_int :: "string \<Rightarrow> pyexc + int"
  lib_quote :: "string \<Rightarrow> pyexc + string"
  lib_urlopen :: "request \<Rightarrow> pyexc + string"
  lib_decode :: "string \<Rightarrow> pyexc + string"
  lib_json_loads :: "string \<Rightarrow> pyexc + json"
  lib_ZipFile :: "string \<Rightarrow> pyexc + zipfile"
  slices_hashable :: bool

subsection \<open>The API client\<close>

definition headers :: "string \<Rightarrow> (string \<times> string) list" where
  "headers token =
     [(''Accept'', ''application/vnd.github+json''),
      (''Authorization'', ''Bearer '' @ token),
      (''X-GitHub-Api-Version'', ''2022-11-28''),
      (''User-Agent'', ''deepseek-parity-streak-gate'')]"

text \<open>
  Each function that reaches the network returns, beside its result, the requests it
  issued, in order.
\<close>

definition get_json :: "pylib \<Rightarrow> json \<Rightarrow> string \<Rightarrow> (pyexc + json) \<times> request list" where
  "get_json lib url token =
     (let req = \<lparr>req_url = url, req_headers = headers token, req_timeout = 30\<rparr> in
      (case lib_urlopen lib req of
         Inl e \<Rightarrow> Inl e
       | Inr body \<Rightarrow>
           (case lib_decode lib body of
              Inl e \<Rightarrow> Inl e
            | Inr s \<Rightarrow> lib_json_loads lib s),
       [req]))"

definition download_bytes :: "pylib \<Rightarrow> json \<Rightarrow> string \<Rightarrow> (pyexc + string) \<times> request list" where
  "download_bytes lib url token =
     (let req = \<lparr>req_url = url, req_headers = headers token, req_timeout = 60\<rparr> in
      (lib_urlopen lib req, [req]))"

subsection \<open>The artifact extractor\<close>

text \<open>Iterating a decoded value: a list gives its elements, a string its characters, a dict its keys.\<close>

fun py_iter :: "json \<Rightarrow> pyexc + json list" where
  "py_iter (JArr xs) = Inr xs"
| "py_iter (JStr s) = Inr (map (\<lambda>c. JStr [c]) s)"
| "py_iter (JObj d) = Inr (map (\<lambda>kv. JStr (fst kv)) d)"
| "py_iter v = Inl (not_iterable v)"

text \<open>
  \<^verbatim>\<open>next((a for a in artifacts if a.get("name") == "parity-journey-report"), None)\<close>:
  the generator is consumed up to the first match, and \<^verbatim>\<open>a.get\<close> raises on an element
  that is not a dict.
\<close>

fun find_artifact :: "json list \<Rightarrow> pyexc + pydict option" where
  "find_artifact [] = Inr None"
| "find_artifact (a # as) =
     (case a of
        JObj d \<Rightarrow> if get d ''name'' = JStr ''parity-journey-report'' then Inr (Some d)
                  else find_artifact as
      | _ \<Rightarrow> Inl (no_attribute a ''get''))"

definition endswith :: "string \<Rightarrow> string \<Rightarrow> bool" where
  "endswith s suf = (length suf \<le> length s \<and> drop (length s - length suf) s = suf)"

definition load_report_from_run ::
  "pylib \<Rightarrow> string \<Rightarrow> pydict \<Rightarrow> string \<Rightarrow> (pyexc + json) \<times> request list" where
  "load_report_from_run lib repo run token =
     (case map_of run ''artifacts_url'' of
        None \<Rightarrow> (Inl (KeyError ''artifacts_url''), [])
      | Some url \<Rightarrow>
          (case get_json lib url token of
             (Inl e, rq) \<Rightarrow> (Inl e, rq)
           | (Inr listing, rq) \<Rightarrow>
               (case listing of
                  JObj l \<Rightarrow>
                    (case py_iter (get_default l ''artifacts'' (JArr [])) of
                       Inl e \<Rightarrow> (Inl e, rq)
                     | Inr artifacts \<Rightarrow>
                         (case find_artifact artifacts of
                            Inl e \<Rightarrow> (Inl e, rq)
                          | Inr None \<Rightarrow>
                              (Inl (RuntimeError
                                 [S ''run '', V (get run ''id''),
                                  S '' missing parity-journey-report artifact'']), rq)
                          | Inr (Some artifact) \<Rightarrow>
                              (case map_of artifact ''archive_download_url'' of
                                 None \<Rightarrow> (Inl (KeyError ''archive_download_url''), rq)
                               | Some durl \<Rightarrow>
                                   (case download_bytes lib durl token of
                                      (Inl e, rq') \<Rightarrow> (Inl e, rq @ rq')
                                    | (Inr archive, rq') \<Rightarrow>
                                        (case lib_ZipFile lib archive of
                                           Inl e \<Rightarrow> (Inl e, rq @ rq')
                                         | Inr zf \<Rightarrow>
                                             (case find (\<lambda>n. endswith n ''parity_journey_report.json'')
                                                     (namelist zf) of
                                                None \<Rightarrow>
                                                  (Inl (RuntimeError
                                                     [S ''run '', V (get run ''id''),
                                                      S '' artifact missing parity_journey_report.json'']),
                                                   rq @ rq')
                                              | Some report_name \<Rightarrow>
                                                  (case zread zf report_name of
                                                     Inl e \<Rightarrow> (Inl e, rq @ rq')
                                                   | Inr raw \<Rightarrow>
                                                       (case lib_decode lib raw of
                                                          Inl e \<Rightarrow> (Inl e, rq @ rq')
                                                        | Inr payload \<Rightarrow>
                                                            (lib_json_loads lib payload, rq @ rq')))))))))
                | _ \<Rightarrow> (Inl (no_attribute listing ''get''), rq))))"

subsection \<open>The report pass policy\<close>

definition report_passes :: "pydict \<Rightarrow> bool" where
  "report_passes report =
     (if get report ''overall_pass'' = JBool False then False
      else (case get report ''required_journeys'' of
              JObj required \<Rightarrow> list_all truthy (dict_values required)
            | _ \<Rightarrow> truthy (get_default report ''overall_pass'' (JBool True))))"

subsection \<open>The streak evaluator\<close>

datatype stream = Stdout | Stderr

text \<open>
  What \<^verbatim>\<open>main()\<close> does: it prints one line and returns a status, or an exception leaves it.
\<close>

datatype result = Returned int stream pytext | Raised pyexc

text \<open>\<^verbatim>\<open>os.environ.get(name, default)\<close>.\<close>

definition getenv :: "(string \<rightharpoonup> string) \<Rightarrow> string \<Rightarrow> string \<Rightarrow> string" where
  "getenv env name dflt = (case env name of None \<Rightarrow> dflt | Some v \<Rightarrow> v)"

fun py_len :: "json \<Rightarrow> pyexc + nat" where
  "py_len (JArr xs) = Inr (length xs)"
| "py_len (JStr s) = Inr (length s)"
| "py_len (JObj d) = Inr (length d)"
| "py_len v = Inl (no_len v)"

text \<open>\<^verbatim>\<open>xs[:k]\<close>: a negative \<open>k\<close> counts from the end.\<close>

definition slice_to :: "'a list \<Rightarrow> int \<Rightarrow> 'a list" where
  "slice_to xs k = (if 0 \<le> k then take (nat k) xs else take (nat (int (length xs) + k)) xs)"

text \<open>
  The values \<^verbatim>\<open>enumerate(runs[:required_streak], start=1)\<close> goes through: the slice of a
  list, the characters of the slice of a string; a dict is not indexed by a slice.
\<close>

fun target_items :: "pylib \<Rightarrow> json \<Rightarrow> int \<Rightarrow> pyexc + json list" where
  "target_items lib (JArr xs) k = Inr (slice_to xs k)"
| "target_items lib (JStr s) k = Inr (map (\<lambda>c. JStr [c]) (slice_to s k))"
| "target_items lib (JObj d) k =
     Inl (if slices_hashable lib then PyExc ''KeyError'' [S ''slice(None, '', I k, S '', None)'']
          else PyExc ''TypeError'' [S ''unhashable type: '', S (quoted ''slice'')])"
| "target_items lib v k = Inl (not_subscriptable v)"

text \<open>
  The loop of \<^verbatim>\<open>main\<close> over the target runs, from index \<open>idx\<close>: \<open>Some\<close> is the
  \<^verbatim>\<open>return\<close> (or the exception) that leaves the loop, \<open>None\<close> its normal end.
\<close>

fun eval_runs ::
  "pylib \<Rightarrow> string \<Rightarrow> string \<Rightarrow> int \<Rightarrow> json list \<Rightarrow> result option \<times> request list" where
  "eval_runs lib repo token idx [] = (None, [])"
| "eval_runs lib repo token idx (run # rest) =
     (case run of
        JObj r \<Rightarrow>
          (let run_id = get r ''id''; conclusion = get r ''conclusion'' in
           if conclusion \<noteq> JStr ''success'' then
             (Some (Returned 1 Stderr
                [S ''Parity streak gate failed: run #'', I idx, S '' (id='', V run_id,
                 S '') conclusion='', V conclusion]), [])
           else
             (case load_report_from_run lib repo r token of
                (Inl exc, rq) \<Rightarrow>
                  (Some (Returned 1 Stderr (S ''Parity streak gate failed: '' # exc_text exc)), rq)
              | (Inr report, rq) \<Rightarrow>
                  (case report of
                     JObj rep \<Rightarrow>
                       if \<not> report_passes rep then
                         (Some (Returned 1 Stderr
                            [S ''Parity streak gate failed: report in run id='', V run_id,
                             S '' did not pass required journeys'']), rq)
                       else
                         (case eval_runs lib repo token (idx + 1) rest of
                            (res, rq') \<Rightarrow> (res, rq @ rq'))
                   | _ \<Rightarrow> (Some (Raised (no_attribute report ''get'')), rq))))
      | _ \<Rightarrow> (Some (Raised (no_attribute run ''get'')), []))"

text \<open>
  The f-string that \<^verbatim>\<open>main\<close> binds to \<^verbatim>\<open>runs_url\<close>. In \<^verbatim>\<open>main\<close>, \<^verbatim>\<open>repo\<close> and
  \<^verbatim>\<open>token\<close> are read past the two checks only, where both are set.
\<close>

definition runs_url :: "string \<Rightarrow> string \<Rightarrow> string \<Rightarrow> string" where
  "runs_url repo workflow_file encoded_branch =
     ''https://api.github.com/repos/'' @ repo @ ''/actions/workflows/'' @ workflow_file @ ''/runs''
       @ ''?branch='' @ encoded_branch @ ''&status=completed&per_page=20''"

definition main :: "pylib \<Rightarrow> (string \<rightharpoonup> string) \<Rightarrow> result \<times> request list" where
  "main lib env =
     (let repo = env ''GITHUB_REPOSITORY'';
          token = env ''GITHUB_TOKEN'';
          workflow_file = getenv env ''PARITY_WORKFLOW_FILE'' ''parity-nightly.yml''
      in
      case lib_int lib (getenv env ''PARITY_REQUIRED_STREAK'' ''3'') of
        Inl e \<Rightarrow> (Raised e, [])
      | Inr required_streak \<Rightarrow>
          (let default_branch = getenv env ''DEFAULT_BRANCH'' ''main'' in
           if repo = None \<or> repo = Some [] then
             (Returned 1 Stderr [S ''GITHUB_REPOSITORY is required''], [])
           else if token = None \<or> token = Some [] then
             (Returned 1 Stderr [S ''GITHUB_TOKEN is required''], [])
           else
             (case lib_quote lib default_branch of
                Inl e \<Rightarrow> (Raised e, [])
              | Inr encoded_branch \<Rightarrow>
                  (case get_json lib
                          (JStr (runs_url (the repo) workflow_file encoded_branch)) (the token) of
                     (Inl e, rq) \<Rightarrow> (Raised e, rq)
                   | (Inr payload, rq) \<Rightarrow>
                       (case payload of
                          JObj p \<Rightarrow>
                            (let runs = get_default p ''workflow_runs'' (JArr []) in
                             case py_len runs of
                               Inl e \<Rightarrow> (Raised e, rq)
                             | Inr n \<Rightarrow>
                                 if int n < required_streak then
                                   (Returned 1 Stderr
                                      [S ''Parity streak gate failed: need '', I required_streak,
                                       S '' completed nightly runs, found '', I (int n)], rq)
                                 else
                                   (case target_items lib runs required_streak of
                                      Inl e \<Rightarrow> (Raised e, rq)
                                    | Inr target_runs \<Rightarrow>
                                        (case eval_runs lib (the repo) (the token) 1 target_runs of
                                           (Some r, rq') \<Rightarrow> (r, rq @ rq')
                                         | (None, rq') \<Rightarrow>
                                             (Returned 0 Stdout
                                                [S ''Parity streak gate passed: last '',
                                                 I required_streak,
                                                 S '' nightly runs succeeded with passing journey reports''],
                                              rq @ rq'))))
                        | _ \<Rightarrow> (Raised (no_attribute payload ''get''), rq))))))"

text \<open>
  The script ends with \<^verbatim>\<open>raise SystemExit(main())\<close>: the status \<^verbatim>\<open>main\<close> returns is the exit
  status; an exception that leaves \<^verbatim>\<open>main\<close> makes the interpreter print a traceback
  on standard error (its stack frames are left out here) that ends with the exception,
  and exit with status 1.
\<close>

fun exit_status :: "result \<Rightarrow> int" where
  "exit_status (Returned c _ _) = c"
| "exit_status (Raised _) = 1"

fun traceback :: "pyexc \<Rightarrow> pytext" where
  "traceback (PyExc cls t) =
     S ''Traceback (most recent call last):'' # S cls # (if t = [] then [] else S '': '' # t)"

fun printed :: "result \<Rightarrow> (stream \<times> pytext) list" where
  "printed (Returned _ st t) = [(st, t)]"
| "printed (Raised e) = [(Stderr, traceback e)]"

section \<open>Vocabulary of the properties\<close>

text \<open>
  The script is configured: both required variables are set and not empty, the required
  streak reads as the integer \<open>k\<close> and the branch name is encoded as \<open>eb\<close>.
\<close>

definition configured ::
  "pylib \<Rightarrow> (string \<rightharpoonup> string) \<Rightarrow> string \<Rightarrow> string \<Rightarrow> int \<Rightarrow> string \<Rightarrow> bool" where
  "configured lib env repo token k eb =
     (env ''GITHUB_REPOSITORY'' = Some repo \<and> repo \<noteq> [] \<and>
      env ''GITHUB_TOKEN'' = Some token \<and> token \<noteq> [] \<and>
      lib_int lib (getenv env ''PARITY_REQUIRED_STREAK'' ''3'') = Inr k \<and>
      lib_quote lib (getenv env ''DEFAULT_BRANCH'' ''main'') = Inr eb)"

text \<open>The list-runs request of a configured script, and the decoded answer to it.\<close>

definition list_request :: "(string \<rightharpoonup> string) \<Rightarrow> string \<Rightarrow> string \<Rightarrow> string \<Rightarrow> request" where
  "list_request env repo token eb =
     \<lparr>req_url = JStr (runs_url repo (getenv env ''PARITY_WORKFLOW_FILE'' ''parity-nightly.yml'') eb),
      req_headers = headers token, req_timeout = 30\<rparr>"

definition list_response ::
  "pylib \<Rightarrow> (string \<rightharpoonup> string) \<Rightarrow> string \<Rightarrow> string \<Rightarrow> string \<Rightarrow> pyexc + json" where
  "list_response lib env repo token eb =
     fst (get_json lib
            (JStr (runs_url repo (getenv env ''PARITY_WORKFLOW_FILE'' ''parity-nightly.yml'') eb))
            token)"

text \<open>
  A run passes steps (a) to (c): it is an object whose conclusion is \<^verbatim>\<open>"success"\<close>, its
  report loads, and the report is an object that satisfies the pass policy.
\<close>

definition run_conforms :: "pylib \<Rightarrow> string \<Rightarrow> string \<Rightarrow> json \<Rightarrow> bool" where
  "run_conforms lib repo token run =
     (case run of
        JObj r \<Rightarrow>
          get r ''conclusion'' = JStr ''success'' \<and>
          (case fst (load_report_from_run lib repo r token) of
             Inr (JObj rep) \<Rightarrow> report_passes rep
           | _ \<Rightarrow> False)
      | _ \<Rightarrow> False)"

text \<open>The requests that loading the report of a run issues.\<close>

definition run_requests :: "pylib \<Rightarrow> string \<Rightarrow> string \<Rightarrow> json \<Rightarrow> request list" where
  "run_requests lib repo token run =
     (case run of JObj r \<Rightarrow> snd (load_report_from_run lib repo r token) | _ \<Rightarrow> [])"

section \<open>A concrete remote side\<close>

text \<open>
  The properties below are also evaluated on a small instance of the parameters. Its
  \<open>int\<close> reads plain decimal digits, its branch names need no escaping, and the body of
  an answer is named rather than spelled out: the decoder maps the name to the value the
  body decodes to, and an archive is the list of its entries.
\<close>

definition sample_int :: "string \<Rightarrow> pyexc + int" where
  "sample_int s =
     (if s \<noteq> [] \<and> list_all (\<lambda>c. c \<in> set ''0123456789'') s
      then Inr (foldl (\<lambda>n c. 10 * n + (of_char c - 48)) 0 s)
      else Inl (PyExc ''ValueError'' [S ''invalid literal for int() with base 10: '', S (quoted s)]))"

definition sample_fields :: "int \<Rightarrow> string \<Rightarrow> pydict" where
  "sample_fields n conclusion =
     [(''id'', JInt n), (''conclusion'', JStr conclusion),
      (''artifacts_url'', JStr (''https://x/runs/'' @ [char_of (48 + n)] @ ''/artifacts''))]"

definition sample_run :: "int \<Rightarrow> string \<Rightarrow> json" where
  "sample_run n conclusion = JObj (sample_fields n conclusion)"

definition sample_listing :: "string \<Rightarrow> json" where
  "sample_listing url =
     JObj [(''total_count'', JInt 2),
           (''artifacts'', JArr
              [JObj [(''name'', JStr ''coverage''),
                     (''archive_download_url'', JStr ''https://x/coverage.zip'')],
               JObj [(''name'', JStr ''parity-journey-report''),
                     (''archive_download_url'', JStr url)]])]"

text \<open>
  Runs 1 to 3 carry a passing report. Run 4 has no report artifact, the artifact list of
  run 5 times out, and the archive of run 6 holds no report file. The argument is the
  decoded answer to the list-runs request.
\<close>

definition sample_lib :: "json \<Rightarrow> pylib" where
  "sample_lib payload =
     \<lparr>lib_int = sample_int,
      lib_quote = Inr,
      lib_urlopen = (\<lambda>req.
         case req_url req of
           JStr u \<Rightarrow>
             (case map_of
                [(''https://api.github.com/repos/o/r/actions/workflows/parity-nightly.yml/runs?branch=main&status=completed&per_page=20'',
                  Inr ''runs''),
                 (''https://x/runs/1/artifacts'', Inr ''listing1''),
                 (''https://x/runs/2/artifacts'', Inr ''listing2''),
                 (''https://x/runs/3/artifacts'', Inr ''listing3''),
                 (''https://x/runs/4/artifacts'', Inr ''listing4''),
                 (''https://x/runs/5/artifacts'',
                  Inl (PyExc ''URLError'' [S ''<urlopen error timed out>''])),
                 (''https://x/runs/6/artifacts'', Inr ''listing6''),
                 (''https://x/report1.zip'', Inr ''archive1''),
                 (''https://x/report2.zip'', Inr ''archive2''),
                 (''https://x/report3.zip'', Inr ''archive3''),
                 (''https://x/report6.zip'', Inr ''archive6'')] u of
                Some r \<Rightarrow> r
              | None \<Rightarrow> Inl (PyExc ''HTTPError'' [S ''HTTP Error 404: Not Found'']))
         | _ \<Rightarrow> Inl (PyExc ''ValueError'' [S ''unknown url type''])),
      lib_decode = Inr,
      lib_json_loads = (\<lambda>s.
         case map_of
            [(''runs'', payload),
             (''listing1'', sample_listing ''https://x/report1.zip''),
             (''listing2'', sample_listing ''https://x/report2.zip''),
             (''listing3'', sample_listing ''https://x/report3.zip''),
             (''listing4'', JObj [(''total_count'', JInt 0), (''artifacts'', JArr [])]),
             (''listing6'', sample_listing ''https://x/report6.zip''),
             (''report-overall'', JObj [(''overall_pass'', JBool True)]),
             (''report-journeys'',
              JObj [(''required_journeys'', JObj [(''a'', JBool True), (''b'', JBool True)])])] s of
           Some v \<Rightarrow> Inr v
         | None \<Rightarrow> Inl (PyExc ''JSONDecodeError'' [S ''Expecting value: line 1 column 1 (char 0)''])),
      lib_ZipFile = (\<lambda>archive.
         case map_of
            [(''archive1'', [(''README.txt'', ''readme''),
                             (''out/parity_journey_report.json'', ''report-overall'')]),
             (''archive2'', [(''parity_journey_report.json'', ''report-journeys'')]),
             (''archive3'', [(''parity_journey_report.json'', ''report-overall'')]),
             (''archive6'', [(''README.txt'', ''readme'')])] archive of
           Some entries \<Rightarrow>
             Inr \<lparr>namelist = map fst entries,
                  zread = (\<lambda>n. case map_of entries n of
                                  Some c \<Rightarrow> Inr c
                                | None \<Rightarrow> Inl (KeyError n))\<rparr>
         | None \<Rightarrow> Inl (PyExc ''BadZipFile'' [S ''File is not a zip file''])),
      slices_hashable = True\<rparr>"

definition sample_env :: "string \<Rightarrow> (string \<rightharpoonup> string)" where
  "sample_env streak =
     [''GITHUB_REPOSITORY'' \<mapsto> ''o/r'', ''GITHUB_TOKEN'' \<mapsto> ''t'',
      ''PARITY_REQUIRED_STREAK'' \<mapsto> streak]"

text \<open>Environments that lack a required variable.\<close>

definition env_no_token :: "string \<rightharpoonup> string" where
  "env_no_token = [''GITHUB_REPOSITORY'' \<mapsto> ''o/r'']"

definition env_bad_streak :: "string \<rightharpoonup> string" where
  "env_bad_streak = [''GITHUB_TOKEN'' \<mapsto> ''t'', ''PARITY_REQUIRED_STREAK'' \<mapsto> ''three'']"

definition sample_payload :: "json list \<Rightarrow> pydict" where
  "sample_payload runs =
     [(''total_count'', JInt (int (length runs))), (''workflow_runs'', JArr runs)]"

definition sample_world :: "json list \<Rightarrow> pylib" where
  "sample_world runs = sample_lib (JObj (sample_payload runs))"

text \<open>The run lists of the scenarios.\<close>

definition runs_green :: "json list" where
  "runs_green = [sample_run 1 ''success'', sample_run 2 ''success'', sample_run 3 ''success'']"

definition runs_middle_failed :: "json list" where
  "runs_middle_failed =
     [sample_run 1 ''success'', sample_run 2 ''failure'', sample_run 3 ''success'']"

definition runs_unreached :: "json list" where
  "runs_unreached = [sample_run 4 ''success'', sample_run 2 ''failure'']"

definition runs_timeout :: "json list" where
  "runs_timeout = [sample_run 5 ''success'']"

definition runs_no_artifact :: "json list" where
  "runs_no_artifact = [sample_run 4 ''success'']"

definition runs_full_page :: "json list" where
  "runs_full_page = replicate 20 (sample_run 1 ''success'')"

definition sample_list_request :: request where
  "sample_list_request =
     \<lparr>req_url = JStr ''https://api.github.com/repos/o/r/actions/workflows/parity-nightly.yml/runs?branch=main&status=completed&per_page=20'',
      req_headers = headers ''t'', req_timeout = 30\<rparr>"

section \<open>Properties of the report pass policy\<close>

lemma get_eq: "get d k = (case map_of d k of None \<Rightarrow> JNull | Some v \<Rightarrow> v)"
  by (simp add: get_def get_default_def)

text \<open>
  C4. A report whose \<^verbatim>\<open>overall_pass\<close> field is the boolean \<^verbatim>\<open>false\<close> fails the pass
  policy, whatever its other fields hold.
\<close>

theorem overall_pass_false_fails:
  "map_of report ''overall_pass'' = Some (JBool False) \<Longrightarrow> \<not> report_passes report"
  by (simp add: report_passes_def get_eq)

theorem overall_pass_false_fails_witness:
  "map_of [(''overall_pass'', JBool False),
           (''required_journeys'', JObj [(''a'', JBool True), (''b'', JBool True)])] ''overall_pass''
     = Some (JBool False)
   \<and> \<not> report_passes [(''overall_pass'', JBool False),
        (''required_journeys'', JObj [(''a'', JBool True), (''b'', JBool True)])]"
  using overall_pass_false_fails
    [of "[(''overall_pass'', JBool False),
          (''required_journeys'', JObj [(''a'', JBool True), (''b'', JBool True)])]"]
  by simp

text \<open>
  C5. For a report whose \<^verbatim>\<open>overall_pass\<close> is not the boolean \<^verbatim>\<open>false\<close>: when
  \<^verbatim>\<open>required_journeys\<close> is present and is a mapping, the policy passes exactly when every
  value of the mapping is truthy, and the empty mapping passes; when \<^verbatim>\<open>required_journeys\<close>
  is absent or is not a mapping, the policy passes exactly when \<^verbatim>\<open>overall_pass\<close> is
  truthy, and passes when \<^verbatim>\<open>overall_pass\<close> is absent.
\<close>

theorem policy_layers:
  assumes "map_of report ''overall_pass'' \<noteq> Some (JBool False)"
  shows "(\<forall>m. map_of report ''required_journeys'' = Some (JObj m) \<longrightarrow>
            (report_passes report \<longleftrightarrow> (\<forall>v \<in> set (dict_values m). truthy v)))
       \<and> (map_of report ''required_journeys'' = Some (JObj []) \<longrightarrow> report_passes report)
       \<and> ((\<forall>m. map_of report ''required_journeys'' \<noteq> Some (JObj m)) \<longrightarrow>
            (report_passes report \<longleftrightarrow>
               (case map_of report ''overall_pass'' of None \<Rightarrow> True | Some v \<Rightarrow> truthy v)))"
  using assms
  by (auto simp: report_passes_def get_eq get_default_def list_all_iff dict_values_def
           split: option.splits json.splits)

theorem policy_layers_witness:
  "report_passes [(''required_journeys'', JObj [(''a'', JBool True), (''b'', JBool True)])]
   \<and> \<not> report_passes [(''required_journeys'', JObj [(''a'', JBool True), (''b'', JBool False)])]
   \<and> report_passes [(''required_journeys'', JObj [])]
   \<and> \<not> report_passes [(''overall_pass'', JInt 0), (''required_journeys'', JStr ''all'')]
   \<and> report_passes []"
  using policy_layers [of "[(''required_journeys'', JObj [(''a'', JBool True), (''b'', JBool True)])]"]
    policy_layers [of "[(''required_journeys'', JObj [(''a'', JBool True), (''b'', JBool False)])]"]
    policy_layers [of "[(''required_journeys'', JObj [])]"]
    policy_layers [of "[(''overall_pass'', JInt 0), (''required_journeys'', JStr ''all'')]"]
    policy_layers [of "[]"]
  by (simp add: dict_values_def)

text \<open>
  C9. Only the boolean \<^verbatim>\<open>false\<close> in \<^verbatim>\<open>overall_pass\<close> takes the immediate-failure
  branch: a report whose \<^verbatim>\<open>required_journeys\<close> is a mapping of truthy values passes
  exactly when \<^verbatim>\<open>overall_pass\<close> is not the boolean \<^verbatim>\<open>false\<close>; in particular it passes
  when \<^verbatim>\<open>overall_pass\<close> is \<^verbatim>\<open>0\<close>, the empty string or \<^verbatim>\<open>null\<close>.
\<close>

theorem only_false_fails_immediately:
  assumes "map_of report ''required_journeys'' = Some (JObj m)"
      and "\<forall>v \<in> set (dict_values m). truthy v"
  shows "(report_passes report \<longleftrightarrow> get report ''overall_pass'' \<noteq> JBool False)
       \<and> (get report ''overall_pass'' \<in> {JInt 0, JStr [], JNull} \<longrightarrow> report_passes report)"
  using assms
  by (auto simp: report_passes_def get_eq get_default_def list_all_iff dict_values_def
           split: option.splits json.splits)

theorem only_false_fails_immediately_witness:
  "report_passes [(''overall_pass'', JInt 0), (''required_journeys'', JObj [(''a'', JBool True)])]
   \<and> report_passes [(''overall_pass'', JStr []), (''required_journeys'', JObj [(''a'', JBool True)])]
   \<and> report_passes [(''overall_pass'', JNull), (''required_journeys'', JObj [(''a'', JBool True)])]
   \<and> \<not> report_passes [(''overall_pass'', JBool False),
                        (''required_journeys'', JObj [(''a'', JBool True)])]"
  using only_false_fails_immediately
      [of "[(''overall_pass'', JInt 0), (''required_journeys'', JObj [(''a'', JBool True)])]"
          "[(''a'', JBool True)]"]
    only_false_fails_immediately
      [of "[(''overall_pass'', JStr []), (''required_journeys'', JObj [(''a'', JBool True)])]"
          "[(''a'', JBool True)]"]
    only_false_fails_immediately
      [of "[(''overall_pass'', JNull), (''required_journeys'', JObj [(''a'', JBool True)])]"
          "[(''a'', JBool True)]"]
    only_false_fails_immediately
      [of "[(''overall_pass'', JBool False), (''required_journeys'', JObj [(''a'', JBool True)])]"
          "[(''a'', JBool True)]"]
  by (simp add: dict_values_def get_eq)

section \<open>The loop over the target runs\<close>

lemma run_conformsE:
  assumes "run_conforms lib repo token r"
  obtains d rep where "r = JObj d" "get d ''conclusion'' = JStr ''success''"
    "load_report_from_run lib repo d token
       = (Inr (JObj rep), run_requests lib repo token r)" "report_passes rep"
proof (cases r)
  case (JObj d)
  with assms have c: "get d ''conclusion'' = JStr ''success''"
    by (simp add: run_conforms_def)
  obtain res rq where l: "load_report_from_run lib repo d token = (res, rq)"
    by (cases "load_report_from_run lib repo d token")
  from assms JObj l obtain v where v: "res = Inr v"
    by (cases res) (simp_all add: run_conforms_def)
  from assms JObj l v obtain rep where rep: "v = JObj rep" "report_passes rep"
    by (cases v) (simp_all add: run_conforms_def)
  show ?thesis
    using that [of d rep] JObj c l v rep by (simp add: run_requests_def)
qed (use assms in \<open>simp_all add: run_conforms_def\<close>)

lemma eval_runs_conforming:
  "\<forall>r \<in> set rs. run_conforms lib repo token r \<Longrightarrow>
   eval_runs lib repo token idx rs = (None, concat (map (run_requests lib repo token) rs))"
proof (induction rs arbitrary: idx)
  case Nil
  show ?case by simp
next
  case (Cons r rs)
  from Cons.prems have r: "run_conforms lib repo token r"
    and rs: "\<forall>x \<in> set rs. run_conforms lib repo token x" by simp_all
  from r obtain d rep where d: "r = JObj d" "get d ''conclusion'' = JStr ''success''"
    "load_report_from_run lib repo d token
       = (Inr (JObj rep), run_requests lib repo token r)" "report_passes rep"
    by (rule run_conformsE)
  show ?case
    using d Cons.IH [OF rs, of "idx + 1"] by simp
qed

lemma eval_runs_append:
  "\<forall>r \<in> set pre. run_conforms lib repo token r \<Longrightarrow>
   eval_runs lib repo token idx (pre @ rest) =
     (fst (eval_runs lib repo token (idx + int (length pre)) rest),
      concat (map (run_requests lib repo token) pre)
        @ snd (eval_runs lib repo token (idx + int (length pre)) rest))"
proof (induction pre arbitrary: idx)
  case Nil
  show ?case by simp
next
  case (Cons r rs)
  from Cons.prems have r: "run_conforms lib repo token r"
    and rs: "\<forall>x \<in> set rs. run_conforms lib repo token x" by simp_all
  from r obtain d rep where d: "r = JObj d" "get d ''conclusion'' = JStr ''success''"
    "load_report_from_run lib repo d token
       = (Inr (JObj rep), run_requests lib repo token r)" "report_passes rep"
    by (rule run_conformsE)
  have "idx + 1 + int (length rs) = idx + int (length (r # rs))" by simp
  then show ?case
    using d Cons.IH [OF rs, of "idx + 1"] by (simp add: add.assoc)
qed

lemma eval_runs_exit:
  "eval_runs lib repo token idx rs = (Some res, rq) \<Longrightarrow> exit_status res = 1"
proof (induction rs arbitrary: idx rq)
  case Nil
  then show ?case by simp
next
  case (Cons r rs)
  then show ?case
    by (auto simp: Let_def split: json.splits sum.splits prod.splits if_splits)
qed

lemma eval_runs_stops:
  "get d ''conclusion'' \<noteq> JStr ''success'' \<Longrightarrow>
   prefix (snd (eval_runs lib repo token idx (pre @ JObj d # rest)))
          (concat (map (run_requests lib repo token) pre))
   \<and> fst (eval_runs lib repo token idx (pre @ JObj d # rest)) \<noteq> None"
proof (induction pre arbitrary: idx)
  case Nil
  then show ?case by simp
next
  case (Cons r rs)
  from Cons.IH [OF Cons.prems, of "idx + 1"] show ?case
    by (auto simp: Let_def run_requests_def split: json.splits sum.splits prod.splits if_splits)
qed

section \<open>The extractor\<close>

lemma find_artifact_none:
  "\<forall>a \<in> set arts. \<exists>ad. a = JObj ad \<and> get ad ''name'' \<noteq> JStr ''parity-journey-report''
   \<Longrightarrow> find_artifact arts = Inr None"
  by (induction arts) auto

lemma load_report_client_error:
  assumes "map_of d ''artifacts_url'' = Some url"
      and "fst (get_json lib url token) = Inl x"
  shows "fst (load_report_from_run lib repo d token) = Inl x"
  using assms
  by (cases "get_json lib url token") (simp add: load_report_from_run_def)

lemma load_report_missing_artifact:
  assumes "map_of d ''artifacts_url'' = Some url"
      and "fst (get_json lib url token) = Inr (JObj l)"
      and "get_default l ''artifacts'' (JArr []) = JArr arts"
      and "\<forall>a \<in> set arts. \<exists>ad. a = JObj ad \<and> get ad ''name'' \<noteq> JStr ''parity-journey-report''"
  shows "fst (load_report_from_run lib repo d token) =
           Inl (RuntimeError [S ''run '', V (get d ''id''),
                              S '' missing parity-journey-report artifact''])"
  using assms(1-3) find_artifact_none [OF assms(4)]
  by (cases "get_json lib url token") (simp add: load_report_from_run_def)

lemma load_report_missing_file:
  assumes "map_of d ''artifacts_url'' = Some url"
      and "fst (get_json lib url token) = Inr (JObj l)"
      and "py_iter (get_default l ''artifacts'' (JArr [])) = Inr arts"
      and "find_artifact arts = Inr (Some a)"
      and "map_of a ''archive_download_url'' = Some durl"
      and "fst (download_bytes lib durl token) = Inr archive"
      and "lib_ZipFile lib archive = Inr zf"
      and "\<forall>n \<in> set (namelist zf). \<not> endswith n ''parity_journey_report.json''"
  shows "fst (load_report_from_run lib repo d token) =
           Inl (RuntimeError [S ''run '', V (get d ''id''),
                              S '' artifact missing parity_journey_report.json''])"
proof -
  from assms(8) have f: "find (\<lambda>n. endswith n ''parity_journey_report.json'') (namelist zf) = None"
    by (simp add: find_None_iff)
  show ?thesis
    using assms(1-7) f
    by (cases "get_json lib url token"; cases "download_bytes lib durl token")
       (simp add: load_report_from_run_def)
qed

section \<open>Properties of the streak evaluator\<close>

lemma get_json_pair:
  "get_json lib url token =
     (fst (get_json lib url token),
      [\<lparr>req_url = url, req_headers = headers token, req_timeout = 30\<rparr>])"
  by (simp add: get_json_def Let_def)

lemma slice_to_nonneg: "0 \<le> k \<Longrightarrow> slice_to xs k = take (nat k) xs"
  by (simp add: slice_to_def)

lemma main_listed:
  assumes "configured lib env repo token k eb"
      and "list_response lib env repo token eb = Inr (JObj p)"
  shows "main lib env =
     (let runs = get_default p ''workflow_runs'' (JArr []) in
      case py_len runs of
        Inl e \<Rightarrow> (Raised e, [list_request env repo token eb])
      | Inr n \<Rightarrow>
          if int n < k then
            (Returned 1 Stderr
               [S ''Parity streak gate failed: need '', I k,
                S '' completed nightly runs, found '', I (int n)],
             [list_request env repo token eb])
          else
            (case target_items lib runs k of
               Inl e \<Rightarrow> (Raised e, [list_request env repo token eb])
             | Inr target_runs \<Rightarrow>
                 (case eval_runs lib repo token 1 target_runs of
                    (Some r, rq') \<Rightarrow> (r, list_request env repo token eb # rq')
                  | (None, rq') \<Rightarrow>
                      (Returned 0 Stdout
                         [S ''Parity streak gate passed: last '', I k,
                          S '' nightly runs succeeded with passing journey reports''],
                       list_request env repo token eb # rq'))))"
proof -
  let ?url = "JStr (runs_url repo (getenv env ''PARITY_WORKFLOW_FILE'' ''parity-nightly.yml'') eb)"
  have g: "get_json lib ?url token = (Inr (JObj p), [list_request env repo token eb])"
    using assms(2) get_json_pair [of lib ?url token]
    by (simp add: list_response_def list_request_def)
  show ?thesis
    using assms(1) g
    by (simp add: main_def configured_def Let_def split: sum.splits option.splits prod.splits)
qed

lemma main_window:
  assumes "configured lib env repo token k eb"
      and "list_response lib env repo token eb = Inr (JObj p)"
      and "get_default p ''workflow_runs'' (JArr []) = JArr runs"
      and "k \<le> int (length runs)"
  shows "main lib env =
     (case eval_runs lib repo token 1 (slice_to runs k) of
        (Some r, rq') \<Rightarrow> (r, list_request env repo token eb # rq')
      | (None, rq') \<Rightarrow>
          (Returned 0 Stdout
             [S ''Parity streak gate passed: last '', I k,
              S '' nightly runs succeeded with passing journey reports''],
           list_request env repo token eb # rq'))"
  using assms(3,4) by (simp add: main_listed [OF assms(1,2)])

lemma window_split:
  assumes "k \<le> int (length runs)" "1 \<le> i" "int i \<le> k"
  shows "slice_to runs k = take (i - 1) runs @ runs ! (i - 1) # drop i (take (nat k) runs)"
proof -
  have k: "0 \<le> k" "i \<le> nat k" "nat k \<le> length runs" using assms by linarith+
  have l: "i - 1 < length (take (nat k) runs)" using assms k by simp
  have "take (nat k) runs =
          take (i - 1) (take (nat k) runs) @ take (nat k) runs ! (i - 1)
            # drop (Suc (i - 1)) (take (nat k) runs)"
    by (rule id_take_nth_drop [OF l])
  moreover have "take (i - 1) (take (nat k) runs) = take (i - 1) runs"
    using k by (simp add: min_def)
  moreover have "take (nat k) runs ! (i - 1) = runs ! (i - 1)"
    using k assms(2) by simp
  moreover have "Suc (i - 1) = i" using assms(2) by simp
  ultimately show ?thesis using k(1) by (simp add: slice_to_def)
qed

lemma take_conform:
  assumes "\<forall>j < n. run_conforms lib repo token (runs ! j)" "n \<le> length runs"
  shows "\<forall>r \<in> set (take n runs). run_conforms lib repo token r"
proof
  fix r assume "r \<in> set (take n runs)"
  then obtain j where "j < length (take n runs)" "take n runs ! j = r"
    by (auto simp: in_set_conv_nth)
  with assms show "run_conforms lib repo token r" by auto
qed

text \<open>
  C1. When the first \<open>k\<close> runs of the list (\<open>k\<close> the required streak; \<open>slice_to runs k\<close>
  is \<open>take (nat k) runs\<close> for \<open>0 \<le> k\<close>) all have conclusion \<^verbatim>\<open>"success"\<close> and a report
  that loads and satisfies the pass policy, \<^verbatim>\<open>main\<close> returns 0 after printing the
  summary line that names \<open>k\<close>.
\<close>

theorem streak_passes:
  assumes "configured lib env repo token k eb"
      and "list_response lib env repo token eb = Inr (JObj p)"
      and "get_default p ''workflow_runs'' (JArr []) = JArr runs"
      and "k \<le> int (length runs)"
      and "\<forall>r \<in> set (slice_to runs k). run_conforms lib repo token r"
  shows "fst (main lib env) =
           Returned 0 Stdout
             [S ''Parity streak gate passed: last '', I k,
              S '' nightly runs succeeded with passing journey reports'']
       \<and> exit_status (fst (main lib env)) = 0"
  by (simp add: main_window [OF assms(1-4)] eval_runs_conforming [OF assms(5)])

theorem streak_passes_witness:
  "configured (sample_world runs_green) (sample_env ''3'') ''o/r'' ''t'' 3 ''main''
   \<and> list_all (run_conforms (sample_world runs_green) ''o/r'' ''t'') (slice_to runs_green 3)
   \<and> fst (main (sample_world runs_green) (sample_env ''3'')) =
       Returned 0 Stdout
         [S ''Parity streak gate passed: last '', I 3,
          S '' nightly runs succeeded with passing journey reports'']"
proof -
  let ?lib = "sample_world runs_green"
  have c: "configured ?lib (sample_env ''3'') ''o/r'' ''t'' 3 ''main''"
    by code_simp
  have l: "list_response ?lib (sample_env ''3'') ''o/r'' ''t'' ''main''
             = Inr (JObj (sample_payload runs_green))"
    by code_simp
  have r: "get_default (sample_payload runs_green) ''workflow_runs'' (JArr []) = JArr runs_green"
    by code_simp
  have n: "3 \<le> int (length runs_green)" by code_simp
  have a: "\<forall>r \<in> set (slice_to runs_green 3). run_conforms ?lib ''o/r'' ''t'' r"
    by code_simp
  from streak_passes [OF c l r n a] show ?thesis using c a by (simp add: list_all_iff)
qed

text \<open>
  C2, amended. In a run list of at least \<open>k\<close> entries, let the run at position
  \<open>i\<close> of \<open>1..k\<close> be an object whose conclusion is not \<^verbatim>\<open>"success"\<close>. Then the
  script exits with status 1, and after the list-runs request it issues requests for
  runs before position \<open>i\<close> only, in order: nothing is fetched for run \<open>i\<close> or a later
  run, whatever the later runs are. If moreover every run before \<open>i\<close> passes steps (a)
  to (c), the line printed cites \<open>i\<close>, the id and the conclusion of run \<open>i\<close>.
\<close>

theorem first_failure_stops:
  assumes "configured lib env repo token k eb"
      and "list_response lib env repo token eb = Inr (JObj p)"
      and "get_default p ''workflow_runs'' (JArr []) = JArr runs"
      and "k \<le> int (length runs)"
      and "1 \<le> i" and "int i \<le> k"
      and "runs ! (i - 1) = JObj d"
      and "get d ''conclusion'' \<noteq> JStr ''success''"
  shows "exit_status (fst (main lib env)) = 1
       \<and> prefix (snd (main lib env))
           (list_request env repo token eb
              # concat (map (run_requests lib repo token) (take (i - 1) runs)))
       \<and> ((\<forall>j < i - 1. run_conforms lib repo token (runs ! j)) \<longrightarrow>
            main lib env =
              (Returned 1 Stderr
                 [S ''Parity streak gate failed: run #'', I (int i), S '' (id='',
                  V (get d ''id''), S '') conclusion='', V (get d ''conclusion'')],
               list_request env repo token eb
                 # concat (map (run_requests lib repo token) (take (i - 1) runs))))"
proof -
  let ?pre = "take (i - 1) runs"
  let ?rest = "drop i (take (nat k) runs)"
  have w: "slice_to runs k = ?pre @ JObj d # ?rest"
    using window_split [OF assms(4-6)] assms(7) by simp
  obtain res rq where e: "eval_runs lib repo token 1 (?pre @ JObj d # ?rest) = (res, rq)"
    by (cases "eval_runs lib repo token 1 (?pre @ JObj d # ?rest)")
  from eval_runs_stops [OF assms(8), of lib repo token 1 ?pre ?rest] e
  have p: "prefix rq (concat (map (run_requests lib repo token) ?pre))" and "res \<noteq> None"
    by simp_all
  then obtain r where r: "res = Some r" by auto
  have m: "main lib env = (r, list_request env repo token eb # rq)"
    using e r by (simp add: main_window [OF assms(1-4)] w)
  have x: "exit_status r = 1" using eval_runs_exit e r by blast
  have c: "main lib env =
      (Returned 1 Stderr
         [S ''Parity streak gate failed: run #'', I (int i), S '' (id='',
          V (get d ''id''), S '') conclusion='', V (get d ''conclusion'')],
       list_request env repo token eb # concat (map (run_requests lib repo token) ?pre))"
    if a: "\<forall>j < i - 1. run_conforms lib repo token (runs ! j)"
  proof -
    have "i - 1 \<le> length runs" using assms(4-6) by linarith
    from take_conform [OF a this]
    have "eval_runs lib repo token 1 (?pre @ JObj d # ?rest) =
            (fst (eval_runs lib repo token (1 + int (length ?pre)) (JObj d # ?rest)),
             concat (map (run_requests lib repo token) ?pre)
               @ snd (eval_runs lib repo token (1 + int (length ?pre)) (JObj d # ?rest)))"
      by (rule eval_runs_append)
    moreover have "1 + int (length ?pre) = int i" using assms(4-6) by simp
    ultimately show ?thesis
      using assms(8) by (simp add: main_window [OF assms(1-4)] w)
  qed
  show ?thesis using m x p c by simp
qed

theorem first_failure_stops_witness:
  "runs_middle_failed ! (2 - 1) = JObj (sample_fields 2 ''failure'')
   \<and> get (sample_fields 2 ''failure'') ''conclusion'' \<noteq> JStr ''success''
   \<and> run_conforms (sample_world runs_middle_failed) ''o/r'' ''t'' (runs_middle_failed ! 0)
   \<and> main (sample_world runs_middle_failed) (sample_env ''3'') =
       (Returned 1 Stderr
          [S ''Parity streak gate failed: run #'', I 2, S '' (id='', V (JInt 2),
           S '') conclusion='', V (JStr ''failure'')],
        [sample_list_request,
         \<lparr>req_url = JStr ''https://x/runs/1/artifacts'', req_headers = headers ''t'',
          req_timeout = 30\<rparr>,
         \<lparr>req_url = JStr ''https://x/report1.zip'', req_headers = headers ''t'',
          req_timeout = 60\<rparr>])"
proof -
  let ?lib = "sample_world runs_middle_failed"
  let ?d = "sample_fields 2 ''failure''"
  have c: "configured ?lib (sample_env ''3'') ''o/r'' ''t'' 3 ''main''"
    by code_simp
  have l: "list_response ?lib (sample_env ''3'') ''o/r'' ''t'' ''main''
             = Inr (JObj (sample_payload runs_middle_failed))"
    by code_simp
  have r: "get_default (sample_payload runs_middle_failed) ''workflow_runs'' (JArr [])
             = JArr runs_middle_failed"
    by code_simp
  have n: "3 \<le> int (length runs_middle_failed)" by code_simp
  have i: "1 \<le> (2::nat)" "int 2 \<le> 3" by simp_all
  have d: "runs_middle_failed ! (2 - 1) = JObj ?d" by code_simp
  have f: "get ?d ''conclusion'' \<noteq> JStr ''success''" by code_simp
  have g: "run_conforms ?lib ''o/r'' ''t'' (runs_middle_failed ! 0)" by code_simp
  then have e: "\<forall>j < 2 - 1. run_conforms ?lib ''o/r'' ''t'' (runs_middle_failed ! j)" by simp
  have v: "get ?d ''id'' = JInt 2" "get ?d ''conclusion'' = JStr ''failure''" by code_simp+
  have q: "list_request (sample_env ''3'') ''o/r'' ''t'' ''main''
             # concat (map (run_requests ?lib ''o/r'' ''t'') (take (2 - 1) runs_middle_failed))
           = [sample_list_request,
              \<lparr>req_url = JStr ''https://x/runs/1/artifacts'', req_headers = headers ''t'',
               req_timeout = 30\<rparr>,
              \<lparr>req_url = JStr ''https://x/report1.zip'', req_headers = headers ''t'',
               req_timeout = 60\<rparr>]"
    by code_simp
  from first_failure_stops [OF c l r n i d f] e
  have "main ?lib (sample_env ''3'') =
      (Returned 1 Stderr
         [S ''Parity streak gate failed: run #'', I (int 2), S '' (id='',
          V (get ?d ''id''), S '') conclusion='', V (get ?d ''conclusion'')],
       list_request (sample_env ''3'') ''o/r'' ''t'' ''main''
         # concat (map (run_requests ?lib ''o/r'' ''t'') (take (2 - 1) runs_middle_failed)))"
    by blast
  then show ?thesis using d f g by (simp only: v q) simp
qed

text \<open>
  C2 as stated fails when an earlier run of the window stops the loop: with run 4
  (successful, no report artifact) before run 2 (conclusion \<^verbatim>\<open>"failure"\<close>) and a required
  streak of 2, the line printed is about run 4 and cites neither the index 2 nor the
  conclusion of the run at position 2.
\<close>

theorem unreached_failure_counterexample:
  "runs_unreached ! (2 - 1) = JObj (sample_fields 2 ''failure'')
   \<and> get (sample_fields 2 ''failure'') ''conclusion'' \<noteq> JStr ''success''
   \<and> fst (main (sample_world runs_unreached) (sample_env ''2'')) =
       Returned 1 Stderr
         [S ''Parity streak gate failed: '', S ''run '', V (JInt 4),
          S '' missing parity-journey-report artifact'']
   \<and> fst (main (sample_world runs_unreached) (sample_env ''2'')) \<noteq>
       Returned 1 Stderr
         [S ''Parity streak gate failed: run #'', I 2, S '' (id='', V (JInt 2),
          S '') conclusion='', V (JStr ''failure'')]"
  by code_simp

text \<open>
  C3. When the list has fewer than \<open>k\<close> runs, whatever the runs are, \<^verbatim>\<open>main\<close> returns
  1 after printing a line that cites \<open>k\<close> and the number of runs found.
\<close>

theorem short_history_fails:
  assumes "configured lib env repo token k eb"
      and "list_response lib env repo token eb = Inr (JObj p)"
      and "get_default p ''workflow_runs'' (JArr []) = JArr runs"
      and "int (length runs) < k"
  shows "fst (main lib env) =
           Returned 1 Stderr
             [S ''Parity streak gate failed: need '', I k,
              S '' completed nightly runs, found '', I (int (length runs))]
       \<and> exit_status (fst (main lib env)) = 1"
  using assms(3,4) by (simp add: main_listed [OF assms(1,2)])

theorem short_history_fails_witness:
  "int (length runs_green) < 4
   \<and> fst (main (sample_world runs_green) (sample_env ''4'')) =
       Returned 1 Stderr
         [S ''Parity streak gate failed: need '', I 4,
          S '' completed nightly runs, found '', I 3]"
proof -
  let ?lib = "sample_world runs_green"
  have c: "configured ?lib (sample_env ''4'') ''o/r'' ''t'' 4 ''main''"
    by code_simp
  have l: "list_response ?lib (sample_env ''4'') ''o/r'' ''t'' ''main''
             = Inr (JObj (sample_payload runs_green))"
    by code_simp
  have r: "get_default (sample_payload runs_green) ''workflow_runs'' (JArr []) = JArr runs_green"
    by code_simp
  have n: "int (length runs_green) < 4" by code_simp
  have m: "int (length runs_green) = 3" by code_simp
  from short_history_fails [OF c l r n] show ?thesis using n m by simp
qed

text \<open>
  C6, amended. Let the run at position \<open>i\<close> of the window have conclusion
  \<^verbatim>\<open>"success"\<close>, every run before it pass steps (a) to (c), and the loading of its report
  raise \<open>e\<close>. Then \<^verbatim>\<open>main\<close> returns 1 after printing
  \<^verbatim>\<open>Parity streak gate failed: \<close> followed by the message of \<open>e\<close>. An error that the
  client raises while fetching the artifact list is \<open>e\<close> itself, so the line holds
  nothing but the client's message; when no artifact is named
  \<^verbatim>\<open>parity-journey-report\<close>, or the archive has no entry ending in
  \<^verbatim>\<open>parity_journey_report.json\<close>, the message names the id of the run.
\<close>

theorem load_error_fails:
  assumes "configured lib env repo token k eb"
      and "list_response lib env repo token eb = Inr (JObj p)"
      and "get_default p ''workflow_runs'' (JArr []) = JArr runs"
      and "k \<le> int (length runs)"
      and "1 \<le> i" and "int i \<le> k"
      and "\<forall>j < i - 1. run_conforms lib repo token (runs ! j)"
      and "runs ! (i - 1) = JObj d"
      and "get d ''conclusion'' = JStr ''success''"
      and "fst (load_report_from_run lib repo d token) = Inl e"
  shows "fst (main lib env) =
           Returned 1 Stderr (S ''Parity streak gate failed: '' # exc_text e)
       \<and> exit_status (fst (main lib env)) = 1
       \<and> (\<forall>url x. map_of d ''artifacts_url'' = Some url \<and>
               fst (get_json lib url token) = Inl x \<longrightarrow> e = x)
       \<and> (\<forall>url l arts.
             map_of d ''artifacts_url'' = Some url \<and>
             fst (get_json lib url token) = Inr (JObj l) \<and>
             get_default l ''artifacts'' (JArr []) = JArr arts \<and>
             (\<forall>a \<in> set arts. \<exists>ad. a = JObj ad \<and>
                get ad ''name'' \<noteq> JStr ''parity-journey-report'') \<longrightarrow>
             exc_text e = [S ''run '', V (get d ''id''),
                           S '' missing parity-journey-report artifact''])
       \<and> (\<forall>url l arts a durl archive zf.
             map_of d ''artifacts_url'' = Some url \<and>
             fst (get_json lib url token) = Inr (JObj l) \<and>
             py_iter (get_default l ''artifacts'' (JArr [])) = Inr arts \<and>
             find_artifact arts = Inr (Some a) \<and>
             map_of a ''archive_download_url'' = Some durl \<and>
             fst (download_bytes lib durl token) = Inr archive \<and>
             lib_ZipFile lib archive = Inr zf \<and>
             (\<forall>n \<in> set (namelist zf). \<not> endswith n ''parity_journey_report.json'') \<longrightarrow>
             exc_text e = [S ''run '', V (get d ''id''),
                           S '' artifact missing parity_journey_report.json''])"
proof -
  let ?pre = "take (i - 1) runs"
  let ?rest = "drop i (take (nat k) runs)"
  have w: "slice_to runs k = ?pre @ JObj d # ?rest"
    using window_split [OF assms(4-6)] assms(8) by simp
  have "i - 1 \<le> length runs" using assms(4-6) by linarith
  from take_conform [OF assms(7) this]
  have a: "eval_runs lib repo token 1 (?pre @ JObj d # ?rest) =
          (fst (eval_runs lib repo token (1 + int (length ?pre)) (JObj d # ?rest)),
           concat (map (run_requests lib repo token) ?pre)
             @ snd (eval_runs lib repo token (1 + int (length ?pre)) (JObj d # ?rest)))"
    by (rule eval_runs_append)
  obtain rq where l: "load_report_from_run lib repo d token = (Inl e, rq)"
    using assms(10) by (cases "load_report_from_run lib repo d token") simp
  have m: "fst (main lib env) =
             Returned 1 Stderr (S ''Parity streak gate failed: '' # exc_text e)"
    using assms(9) l a by (simp add: main_window [OF assms(1-4)] w)
  have c1: "e = x"
    if "map_of d ''artifacts_url'' = Some url" "fst (get_json lib url token) = Inl x"
    for url x
    using load_report_client_error [OF that, of repo] assms(10) by simp
  have c2: "exc_text e = [S ''run '', V (get d ''id''),
                          S '' missing parity-journey-report artifact'']"
    if "map_of d ''artifacts_url'' = Some url" "fst (get_json lib url token) = Inr (JObj l)"
       "get_default l ''artifacts'' (JArr []) = JArr arts"
       "\<forall>a \<in> set arts. \<exists>ad. a = JObj ad \<and>
          get ad ''name'' \<noteq> JStr ''parity-journey-report''"
    for url l arts
    using load_report_missing_artifact [OF that, of repo] assms(10)
    by (simp add: RuntimeError_def)
  have c3: "exc_text e = [S ''run '', V (get d ''id''),
                          S '' artifact missing parity_journey_report.json'']"
    if "map_of d ''artifacts_url'' = Some url" "fst (get_json lib url token) = Inr (JObj l)"
       "py_iter (get_default l ''artifacts'' (JArr [])) = Inr arts"
       "find_artifact arts = Inr (Some a)"
       "map_of a ''archive_download_url'' = Some durl"
       "fst (download_bytes lib durl token) = Inr archive"
       "lib_ZipFile lib archive = Inr zf"
       "\<forall>n \<in> set (namelist zf). \<not> endswith n ''parity_journey_report.json''"
    for url l arts a durl archive zf
    using load_report_missing_file [OF that, of repo] assms(10)
    by (simp add: RuntimeError_def)
  from m have x: "exit_status (fst (main lib env)) = 1" by simp
  show ?thesis
    using m x c1 c2 c3 by blast
qed

theorem load_error_fails_witness:
  "fst (load_report_from_run (sample_world runs_timeout) ''o/r'' (sample_fields 5 ''success'') ''t'')
     = Inl (PyExc ''URLError'' [S ''<urlopen error timed out>''])
   \<and> fst (main (sample_world runs_timeout) (sample_env ''1'')) =
       Returned 1 Stderr [S ''Parity streak gate failed: '', S ''<urlopen error timed out>'']
   \<and> fst (main (sample_world runs_no_artifact) (sample_env ''1'')) =
       Returned 1 Stderr
         [S ''Parity streak gate failed: '', S ''run '', V (JInt 4),
          S '' missing parity-journey-report artifact'']"
proof -
  let ?e = "PyExc ''URLError'' [S ''<urlopen error timed out>'']"
  let ?x = "RuntimeError [S ''run '', V (JInt 4), S '' missing parity-journey-report artifact'']"
  have i: "1 \<le> (1::nat)" "int 1 \<le> 1" by simp_all
  have e: "\<forall>j < 1 - 1. run_conforms lib ''o/r'' ''t'' (runs ! j)" for lib runs by simp
  have c: "configured (sample_world runs_timeout) (sample_env ''1'') ''o/r'' ''t'' 1 ''main''"
    by code_simp
  have l: "list_response (sample_world runs_timeout) (sample_env ''1'') ''o/r'' ''t'' ''main''
             = Inr (JObj (sample_payload runs_timeout))"
    by code_simp
  have r: "get_default (sample_payload runs_timeout) ''workflow_runs'' (JArr []) = JArr runs_timeout"
    by code_simp
  have n: "1 \<le> int (length runs_timeout)" by code_simp
  have d: "runs_timeout ! (1 - 1) = JObj (sample_fields 5 ''success'')" by code_simp
  have s: "get (sample_fields 5 ''success'') ''conclusion'' = JStr ''success''" by code_simp
  have f: "fst (load_report_from_run (sample_world runs_timeout) ''o/r''
                  (sample_fields 5 ''success'') ''t'') = Inl ?e"
    by code_simp
  have c': "configured (sample_world runs_no_artifact) (sample_env ''1'') ''o/r'' ''t'' 1 ''main''"
    by code_simp
  have l': "list_response (sample_world runs_no_artifact) (sample_env ''1'') ''o/r'' ''t'' ''main''
             = Inr (JObj (sample_payload runs_no_artifact))"
    by code_simp
  have r': "get_default (sample_payload runs_no_artifact) ''workflow_runs'' (JArr [])
              = JArr runs_no_artifact"
    by code_simp
  have n': "1 \<le> int (length runs_no_artifact)" by code_simp
  have d': "runs_no_artifact ! (1 - 1) = JObj (sample_fields 4 ''success'')" by code_simp
  have s': "get (sample_fields 4 ''success'') ''conclusion'' = JStr ''success''" by code_simp
  have f': "fst (load_report_from_run (sample_world runs_no_artifact) ''o/r''
                  (sample_fields 4 ''success'') ''t'') = Inl ?x"
    by code_simp
  from load_error_fails [OF c l r n i e d s f] load_error_fails [OF c' l' r' n' i e d' s' f'] f
  show ?thesis by (simp add: RuntimeError_def)
qed

text \<open>
  C6 as stated fails for an error of the client: the artifact list of run 5 times out,
  and the line printed holds the client's message and not the id of the run.
\<close>

theorem client_error_counterexample:
  "runs_timeout ! (1 - 1) = JObj (sample_fields 5 ''success'')
   \<and> get (sample_fields 5 ''success'') ''conclusion'' = JStr ''success''
   \<and> get (sample_fields 5 ''success'') ''id'' = JInt 5
   \<and> fst (load_report_from_run (sample_world runs_timeout) ''o/r''
             (sample_fields 5 ''success'') ''t'')
       = Inl (PyExc ''URLError'' [S ''<urlopen error timed out>''])
   \<and> fst (main (sample_world runs_timeout) (sample_env ''1'')) =
       Returned 1 Stderr [S ''Parity streak gate failed: '', S ''<urlopen error timed out>'']
   \<and> V (JInt 5) \<notin> set [S ''Parity streak gate failed: '', S ''<urlopen error timed out>'']"
  by code_simp

text \<open>
  C7, amended. Whatever the required streak, the first request of a configured run is
  the list-runs request: its query filters by the encoded branch and by
  \<^verbatim>\<open>status=completed\<close>, and its page size is the constant 20 (so it is at least the
  required streak exactly when the required streak is at most 20).
\<close>

theorem list_request_fixed_page:
  assumes "configured lib env repo token k eb"
  shows "snd (main lib env) \<noteq> []
       \<and> hd (snd (main lib env)) =
           \<lparr>req_url = JStr (''https://api.github.com/repos/'' @ repo @ ''/actions/workflows/''
                 @ getenv env ''PARITY_WORKFLOW_FILE'' ''parity-nightly.yml''
                 @ ''/runs?branch='' @ eb @ ''&status=completed&per_page=20''),
            req_headers = headers token, req_timeout = 30\<rparr>"
proof -
  let ?url = "JStr (runs_url repo (getenv env ''PARITY_WORKFLOW_FILE'' ''parity-nightly.yml'') eb)"
  obtain res where g: "get_json lib ?url token
      = (res, [\<lparr>req_url = ?url, req_headers = headers token, req_timeout = 30\<rparr>])"
    using get_json_pair [of lib ?url token] by blast
  show ?thesis
    using assms g
    by (simp add: main_def configured_def Let_def runs_url_def
             split: sum.splits option.splits prod.splits json.splits)
qed

theorem list_request_fixed_page_witness:
  "configured (sample_world runs_green) (sample_env ''3'') ''o/r'' ''t'' 3 ''main''
   \<and> hd (snd (main (sample_world runs_green) (sample_env ''3''))) =
       \<lparr>req_url = JStr ''https://api.github.com/repos/o/r/actions/workflows/parity-nightly.yml/runs?branch=main&status=completed&per_page=20'',
        req_headers = headers ''t'', req_timeout = 30\<rparr>"
proof -
  have c: "configured (sample_world runs_green) (sample_env ''3'') ''o/r'' ''t'' 3 ''main''"
    by code_simp
  have w: "getenv (sample_env ''3'') ''PARITY_WORKFLOW_FILE'' ''parity-nightly.yml''
             = ''parity-nightly.yml''"
    by code_simp
  from list_request_fixed_page [OF c] show ?thesis using c by (simp add: w)
qed

text \<open>
  C7 as stated fails for a required streak of 21: the request still asks for 20 runs
  per page, and a full page of 20 passing runs is reported as too short.
\<close>

theorem page_size_counterexample:
  "configured (sample_world runs_full_page) (sample_env ''21'') ''o/r'' ''t'' 21 ''main''
   \<and> length runs_full_page = 20
   \<and> list_all (run_conforms (sample_world runs_full_page) ''o/r'' ''t'') runs_full_page
   \<and> main (sample_world runs_full_page) (sample_env ''21'') =
       (Returned 1 Stderr
          [S ''Parity streak gate failed: need '', I 21,
           S '' completed nightly runs, found '', I 20],
        [\<lparr>req_url = JStr ''https://api.github.com/repos/o/r/actions/workflows/parity-nightly.yml/runs?branch=main&status=completed&per_page=20'',
          req_headers = headers ''t'', req_timeout = 30\<rparr>])
   \<and> \<not> (21::int) \<le> 20"
  by code_simp

text \<open>
  C8. When \<^verbatim>\<open>GITHUB_REPOSITORY\<close> or \<^verbatim>\<open>GITHUB_TOKEN\<close> is unset or empty, the script
  exits with status 1 with one line on standard error and issues no request, whatever
  the other variables hold. The line names the first missing variable when the required
  streak reads as an integer; otherwise the \<^verbatim>\<open>ValueError\<close> of \<^verbatim>\<open>int\<close> leaves
  \<^verbatim>\<open>main\<close> first, and the line is its traceback.
\<close>

theorem missing_config_fatal:
  assumes "env ''GITHUB_REPOSITORY'' = None \<or> env ''GITHUB_REPOSITORY'' = Some []
         \<or> env ''GITHUB_TOKEN'' = None \<or> env ''GITHUB_TOKEN'' = Some []"
  shows "exit_status (fst (main lib env)) = 1
       \<and> (\<exists>line. printed (fst (main lib env)) = [(Stderr, line)])
       \<and> snd (main lib env) = []
       \<and> (\<forall>k. lib_int lib (getenv env ''PARITY_REQUIRED_STREAK'' ''3'') = Inr k \<longrightarrow>
             fst (main lib env) =
               Returned 1 Stderr
                 [S (if env ''GITHUB_REPOSITORY'' = None \<or> env ''GITHUB_REPOSITORY'' = Some []
                     then ''GITHUB_REPOSITORY is required'' else ''GITHUB_TOKEN is required'')])
       \<and> (\<forall>e. lib_int lib (getenv env ''PARITY_REQUIRED_STREAK'' ''3'') = Inl e \<longrightarrow>
             fst (main lib env) = Raised e)"
proof (cases "lib_int lib (getenv env ''PARITY_REQUIRED_STREAK'' ''3'')")
  case (Inl e)
  then show ?thesis
    by (cases e) (simp add: main_def Let_def)
next
  case (Inr k)
  with assms show ?thesis
    by (auto simp: main_def Let_def)
qed

theorem missing_config_fatal_witness:
  "main (sample_world runs_green) Map.empty =
     (Returned 1 Stderr [S ''GITHUB_REPOSITORY is required''], [])
   \<and> main (sample_world runs_green) env_no_token =
       (Returned 1 Stderr [S ''GITHUB_TOKEN is required''], [])
   \<and> exit_status (fst (main (sample_world runs_green) env_bad_streak)) = 1
   \<and> snd (main (sample_world runs_green) env_bad_streak) = []"
proof -
  let ?lib = "sample_world runs_green"
  let ?e1 = "Map.empty :: string \<rightharpoonup> string"
  have h1: "?e1 ''GITHUB_REPOSITORY'' = None \<or> ?e1 ''GITHUB_REPOSITORY'' = Some []
          \<or> ?e1 ''GITHUB_TOKEN'' = None \<or> ?e1 ''GITHUB_TOKEN'' = Some []" by simp
  have h2: "env_no_token ''GITHUB_REPOSITORY'' = None \<or> env_no_token ''GITHUB_REPOSITORY'' = Some []
          \<or> env_no_token ''GITHUB_TOKEN'' = None \<or> env_no_token ''GITHUB_TOKEN'' = Some []"
    by (simp add: env_no_token_def)
  have h3: "env_bad_streak ''GITHUB_REPOSITORY'' = None
          \<or> env_bad_streak ''GITHUB_REPOSITORY'' = Some []
          \<or> env_bad_streak ''GITHUB_TOKEN'' = None \<or> env_bad_streak ''GITHUB_TOKEN'' = Some []"
    by (simp add: env_bad_streak_def)
  have k1: "lib_int ?lib (getenv ?e1 ''PARITY_REQUIRED_STREAK'' ''3'') = Inr 3" by code_simp
  have k2: "lib_int ?lib (getenv env_no_token ''PARITY_REQUIRED_STREAK'' ''3'') = Inr 3"
    by code_simp
  have r2: "\<not> (env_no_token ''GITHUB_REPOSITORY'' = None
              \<or> env_no_token ''GITHUB_REPOSITORY'' = Some [])"
    by (simp add: env_no_token_def)
  from missing_config_fatal [OF h1, of ?lib] k1
  have a: "fst (main ?lib ?e1) = Returned 1 Stderr [S ''GITHUB_REPOSITORY is required'']"
    and a': "snd (main ?lib ?e1) = []" by simp_all
  from missing_config_fatal [OF h2, of ?lib] k2 r2
  have b: "fst (main ?lib env_no_token) = Returned 1 Stderr [S ''GITHUB_TOKEN is required'']"
    and b': "snd (main ?lib env_no_token) = []" by simp_all
  from missing_config_fatal [OF h3, of ?lib]
  have c: "exit_status (fst (main ?lib env_bad_streak)) = 1"
    and c': "snd (main ?lib env_bad_streak) = []" by simp_all
  show ?thesis using a a' b b' c c' by (simp add: prod_eq_iff)
qed

text \<open>
  C10, amended. When the answer to the list-runs request is an object without the key
  \<^verbatim>\<open>workflow_runs\<close> and the required streak is at least 1, \<^verbatim>\<open>main\<close> takes the run
  list to be empty and returns 1 after printing the insufficient-history line with 0
  runs found.
\<close>

theorem missing_runs_key:
  assumes "configured lib env repo token k eb"
      and "list_response lib env repo token eb = Inr (JObj p)"
      and "map_of p ''workflow_runs'' = None"
      and "1 \<le> k"
  shows "fst (main lib env) =
           Returned 1 Stderr
             [S ''Parity streak gate failed: need '', I k,
              S '' completed nightly runs, found '', I 0]
       \<and> exit_status (fst (main lib env)) = 1"
  using assms(3,4) by (simp add: main_listed [OF assms(1,2)] get_default_def)

theorem missing_runs_key_witness:
  "map_of [(''total_count'', JInt 0)] ''workflow_runs'' = None
   \<and> fst (main (sample_lib (JObj [(''total_count'', JInt 0)])) (sample_env ''3'')) =
       Returned 1 Stderr
         [S ''Parity streak gate failed: need '', I 3,
          S '' completed nightly runs, found '', I 0]"
proof -
  let ?p = "[(''total_count'', JInt 0)]"
  let ?lib = "sample_lib (JObj ?p)"
  have c: "configured ?lib (sample_env ''3'') ''o/r'' ''t'' 3 ''main''"
    by code_simp
  have l: "list_response ?lib (sample_env ''3'') ''o/r'' ''t'' ''main'' = Inr (JObj ?p)"
    by code_simp
  have m: "map_of ?p ''workflow_runs'' = None" by simp
  have k: "(1::int) \<le> 3" by simp
  from missing_runs_key [OF c l m k] show ?thesis using m by simp
qed

text \<open>
  C10 as stated fails for a required streak of 0: the empty run list is not shorter
  than the streak, the loop has nothing to check, and \<^verbatim>\<open>main\<close> returns 0.
\<close>

theorem zero_streak_counterexample:
  "map_of [(''total_count'', JInt 0)] ''workflow_runs'' = None
   \<and> configured (sample_lib (JObj [(''total_count'', JInt 0)])) (sample_env ''0'')
        ''o/r'' ''t'' 0 ''main''
   \<and> list_response (sample_lib (JObj [(''total_count'', JInt 0)])) (sample_env ''0'')
        ''o/r'' ''t'' ''main'' = Inr (JObj [(''total_count'', JInt 0)])
   \<and> main (sample_lib (JObj [(''total_count'', JInt 0)])) (sample_env ''0'') =
       (Returned 0 Stdout
          [S ''Parity streak gate passed: last '', I 0,
           S '' nightly runs succeeded with passing journey reports''],
        [sample_list_request])"
  by code_simp

end
